theory Spec2Isabelle
  imports Main
begin

section \<open>Python values, exceptions and string helpers\<close>

text \<open>
  The gateway of \<^verbatim>\<open>mcp_zammad/http_server.py\<close> moves dynamically typed values between
  the HTTP body and the RPC core. \<open>pyval\<close> covers the JSON-shaped values of a request
  body and the model objects a core may return. An object is its class name and a finite
  attribute table; an attribute that is a method without arguments (\<^verbatim>\<open>model_dump\<close>,
  \<^verbatim>\<open>dict\<close>) holds the value its call returns. Floating-point numbers are left out.
\<close>

datatype pyval =
    PNone
  | PBool bool
  | PInt int
  | PStr string
  | PList "pyval list"
  | PDict "(string \<times> pyval) list"
  | PObj string "(string \<times> pyval) list"

text \<open>
  Every exception class below derives from Python's \<^verbatim>\<open>Exception\<close>, so an
  \<^verbatim>\<open>except Exception\<close> clause catches each of them. \<open>CoreError\<close> is a fault raised by
  the RPC core, carrying its \<^verbatim>\<open>str()\<close>.
\<close>

datatype exn =
    HTTPException nat string
  | ValueError string
  | TypeError string
  | AttributeError string
  | CoreError string

definition digit_char :: "nat \<Rightarrow> char" where
  "digit_char d = ''0123456789'' ! d"

function str_nat :: "nat \<Rightarrow> string" where
  "str_nat n = (if n < 10 then [digit_char n] else str_nat (n div 10) @ [digit_char (n mod 10)])"
  by pat_completeness auto
termination
  by (relation "measure (\<lambda>n. n)") auto

declare str_nat.simps [simp del]

text \<open>
  \<^verbatim>\<open>str(e)\<close>. Starlette's \<^verbatim>\<open>HTTPException.__str__\<close> renders
  \<^verbatim>\<open>"<status_code>: <detail>"\<close>; the other classes render their message.
\<close>

fun str_exn :: "exn \<Rightarrow> string" where
  "str_exn (HTTPException status detail) = str_nat status @ '': '' @ detail"
| "str_exn (ValueError m) = m"
| "str_exn (TypeError m) = m"
| "str_exn (AttributeError m) = m"
| "str_exn (CoreError m) = m"

text \<open>Python truthiness, as tested by \<^verbatim>\<open>not x\<close> and \<^verbatim>\<open>x or d\<close>.\<close>

fun truthy :: "pyval \<Rightarrow> bool" where
  "truthy PNone = False"
| "truthy (PBool b) = b"
| "truthy (PInt i) = (i \<noteq> 0)"
| "truthy (PStr s) = (s \<noteq> [])"
| "truthy (PList xs) = (xs \<noteq> [])"
| "truthy (PDict kvs) = (kvs \<noteq> [])"
| "truthy (PObj cls attrs) = True"

definition py_or :: "pyval \<Rightarrow> pyval \<Rightarrow> pyval" where
  "py_or x d = (if truthy x then x else d)"

fun type_name :: "pyval \<Rightarrow> string" where
  "type_name PNone = ''NoneType''"
| "type_name (PBool b) = ''bool''"
| "type_name (PInt i) = ''int''"
| "type_name (PStr s) = ''str''"
| "type_name (PList xs) = ''list''"
| "type_name (PDict kvs) = ''dict''"
| "type_name (PObj cls attrs) = cls"

fun attrs_of :: "pyval \<Rightarrow> (string \<times> pyval) list" where
  "attrs_of (PObj cls attrs) = attrs"
| "attrs_of v = []"

definition hasattr :: "pyval \<Rightarrow> string \<Rightarrow> bool" where
  "hasattr v a = (map_of (attrs_of v) a \<noteq> None)"

text \<open>Attribute access \<^verbatim>\<open>v.a\<close>, raising \<^verbatim>\<open>AttributeError\<close> when the attribute is missing.\<close>

definition getattr :: "pyval \<Rightarrow> string \<Rightarrow> exn + pyval" where
  "getattr v a =
     (case map_of (attrs_of v) a of
        Some x \<Rightarrow> Inr x
      | None \<Rightarrow> Inl (AttributeError
                 ([CHR 0x27] @ type_name v @ [CHR 0x27] @ '' object has no attribute ''
                    @ [CHR 0x27] @ a @ [CHR 0x27])))"

text \<open>\<^verbatim>\<open>d.get(k)\<close> and \<^verbatim>\<open>d.get(k, default)\<close> on a dict.\<close>

definition dict_get :: "(string \<times> pyval) list \<Rightarrow> string \<Rightarrow> pyval" where
  "dict_get d k = (case map_of d k of None \<Rightarrow> PNone | Some v \<Rightarrow> v)"

definition dict_get_default :: "(string \<times> pyval) list \<Rightarrow> string \<Rightarrow> pyval \<Rightarrow> pyval" where
  "dict_get_default d k dflt = (case map_of d k of None \<Rightarrow> dflt | Some v \<Rightarrow> v)"

text \<open>\<^verbatim>\<open>s.startswith(p)\<close>.\<close>

fun startswith :: "string \<Rightarrow> string \<Rightarrow> bool" where
  "startswith s [] = True"
| "startswith [] (p # ps) = False"
| "startswith (c # cs) (p # ps) = (c = p \<and> startswith cs ps)"

text \<open>
  \<^verbatim>\<open>s.replace(old, new)\<close>: every non-overlapping occurrence of \<open>old\<close>, found from the
  left, is replaced. With an empty \<open>old\<close> Python puts \<open>new\<close> before every character and
  at the end.
\<close>

function py_replace :: "string \<Rightarrow> string \<Rightarrow> string \<Rightarrow> string" where
  "py_replace s old new =
     (if old = [] then new @ concat (map (\<lambda>c. c # new) s)
      else if s = [] then []
      else if startswith s old then new @ py_replace (drop (length old) s) old new
      else hd s # py_replace (tl s) old new)"
  by pat_completeness auto
termination
  by (relation "measure (\<lambda>(s, old, new). length s)") auto

declare py_replace.simps [simp del]

text \<open>Substring test, used to say that a message mentions a phrase.\<close>

fun contains_str :: "string \<Rightarrow> string \<Rightarrow> bool" where
  "contains_str [] needle = (needle = [])"
| "contains_str (c # cs) needle = (startswith (c # cs) needle \<or> contains_str cs needle)"

text \<open>
  \<^verbatim>\<open>json.dumps(v)\<close> without a \<^verbatim>\<open>default\<close> hook raises \<^verbatim>\<open>TypeError\<close> at the first
  object it meets that is not JSON-shaped. The result kept here is the value that was
  encoded, not its text.
\<close>

fun first_unserializable :: "pyval \<Rightarrow> string option"
and first_unserializable_list :: "pyval list \<Rightarrow> string option"
and first_unserializable_items :: "(string \<times> pyval) list \<Rightarrow> string option" where
  "first_unserializable (PObj cls attrs) = Some cls"
| "first_unserializable (PList xs) = first_unserializable_list xs"
| "first_unserializable (PDict kvs) = first_unserializable_items kvs"
| "first_unserializable v = None"
| "first_unserializable_list [] = None"
| "first_unserializable_list (x # xs) =
     (case first_unserializable x of
        Some c \<Rightarrow> Some c
      | None \<Rightarrow> first_unserializable_list xs)"
| "first_unserializable_items [] = None"
| "first_unserializable_items (kv # kvs) =
     (case first_unserializable (snd kv) of
        Some c \<Rightarrow> Some c
      | None \<Rightarrow> first_unserializable_items kvs)"

definition json_dumps :: "pyval \<Rightarrow> exn + pyval" where
  "json_dumps v =
     (case first_unserializable v of
        None \<Rightarrow> Inr v
      | Some cls \<Rightarrow> Inl (TypeError (''Object of type '' @ cls @ '' is not JSON serializable'')))"

section \<open>The RPC core and the request and response models\<close>

text \<open>
  The core is an external collaborator: each of its operations either returns a value or
  raises. \<open>py_repr\<close> is Python's \<^verbatim>\<open>repr\<close>, which an f-string uses to render a tool name
  that is not a string. \<open>core_call\<close> records an invocation of the core, so that a run of
  an endpoint yields its answer together with the calls it made.
\<close>

record FastMCP =
  list_tools :: "exn + pyval list"
  list_resources :: "exn + pyval list"
  list_prompts :: "exn + pyval list"
  call_tool :: "pyval \<Rightarrow> pyval \<Rightarrow> exn + pyval"
  read_resource :: "string \<Rightarrow> exn + pyval"
  get_prompt :: "string \<Rightarrow> pyval \<Rightarrow> exn + pyval"
  py_repr :: "pyval \<Rightarrow> string"

datatype core_call =
    ListTools
  | ListResources
  | ListPrompts
  | CallTool pyval pyval
  | ReadResource string
  | GetPrompt string pyval

record MCPRequest =
  "method" :: string
  params :: "(string \<times> pyval) list option"

text \<open>
  \<^verbatim>\<open>MCPResponse\<close> declares both fields optional with default \<^verbatim>\<open>None\<close>; a result of
  \<^verbatim>\<open>None\<close> is therefore the same as no result.
\<close>

record MCPResponse =
  result :: pyval
  error :: "(string \<times> pyval) list option"

record sse_event =
  event :: string
  data :: pyval

text \<open>\<^verbatim>\<open>request.params or {}\<close>.\<close>

definition params_or_empty :: "(string \<times> pyval) list option \<Rightarrow> (string \<times> pyval) list" where
  "params_or_empty p = (case p of None \<Rightarrow> [] | Some d \<Rightarrow> (if d = [] then [] else d))"

text \<open>An f-string field \<^verbatim>\<open>{v}\<close>: a string is rendered as it is, anything else by \<open>repr\<close>.\<close>

definition fmt :: "FastMCP \<Rightarrow> pyval \<Rightarrow> string" where
  "fmt mcp v = (case v of PStr s \<Rightarrow> s | _ \<Rightarrow> py_repr mcp v)"

section \<open>Capability adapters\<close>

definition bind_exn :: "exn + 'a \<Rightarrow> ('a \<Rightarrow> exn + 'b) \<Rightarrow> exn + 'b" where
  "bind_exn r f = (case r of Inl e \<Rightarrow> Inl e | Inr x \<Rightarrow> f x)"

text \<open>The value of an attribute that \<open>hasattr\<close> has found.\<close>

definition attr_value :: "pyval \<Rightarrow> string \<Rightarrow> pyval" where
  "attr_value v a = (case map_of (attrs_of v) a of Some x \<Rightarrow> x | None \<Rightarrow> PNone)"

text \<open>The loop of \<^verbatim>\<open>_list_tools\<close>: one projected mapping per tool, in order.\<close>

fun project_tools :: "pyval list \<Rightarrow> exn + pyval list" where
  "project_tools [] = Inr []"
| "project_tools (tool # rest) =
     bind_exn (getattr tool ''name'') (\<lambda>n.
     bind_exn (getattr tool ''description'') (\<lambda>d.
     bind_exn (getattr tool ''inputSchema'') (\<lambda>s.
     bind_exn (project_tools rest) (\<lambda>tools.
       Inr (PDict [(''name'', n),
                   (''description'', py_or d (PStr [])),
                   (''inputSchema'', py_or s (PDict []))] # tools)))))"

text \<open>\<^verbatim>\<open>_list_tools\<close>.\<close>

definition srv_list_tools :: "FastMCP \<Rightarrow> (exn + pyval) \<times> core_call list" where
  "srv_list_tools mcp =
     (bind_exn (list_tools mcp) (\<lambda>tools_list.
      bind_exn (project_tools tools_list) (\<lambda>tools.
        Inr (PDict [(''tools'', PList tools)]))),
      [ListTools])"

fun project_resources :: "pyval list \<Rightarrow> exn + pyval list" where
  "project_resources [] = Inr []"
| "project_resources (resource # rest) =
     bind_exn (getattr resource ''uri'') (\<lambda>u.
     bind_exn (getattr resource ''name'') (\<lambda>n.
     bind_exn (getattr resource ''description'') (\<lambda>d.
     bind_exn (getattr resource ''mimeType'') (\<lambda>m.
     bind_exn (project_resources rest) (\<lambda>resources.
       Inr (PDict [(''uri'', u),
                   (''name'', py_or n (PStr [])),
                   (''description'', py_or d (PStr [])),
                   (''mimeType'', py_or m (PStr ''text/plain''))] # resources))))))"

text \<open>\<^verbatim>\<open>_list_resources\<close>.\<close>

definition srv_list_resources :: "FastMCP \<Rightarrow> (exn + pyval) \<times> core_call list" where
  "srv_list_resources mcp =
     (bind_exn (list_resources mcp) (\<lambda>resources_list.
      bind_exn (project_resources resources_list) (\<lambda>resources.
        Inr (PDict [(''resources'', PList resources)]))),
      [ListResources])"

text \<open>
  The loop of \<^verbatim>\<open>_list_prompts\<close>; \<^verbatim>\<open>getattr(prompt, 'arguments', [])\<close> does not raise.
\<close>

fun project_prompts :: "pyval list \<Rightarrow> exn + pyval list" where
  "project_prompts [] = Inr []"
| "project_prompts (prompt # rest) =
     bind_exn (getattr prompt ''name'') (\<lambda>n.
     bind_exn (getattr prompt ''description'') (\<lambda>d.
     bind_exn (project_prompts rest) (\<lambda>prompts.
       Inr (PDict [(''name'', n),
                   (''description'', py_or d (PStr [])),
                   (''arguments'',
                      py_or (if hasattr prompt ''arguments''
                             then attr_value prompt ''arguments'' else PList [])
                            (PList []))] # prompts))))"

text \<open>\<^verbatim>\<open>_list_prompts\<close>.\<close>

definition srv_list_prompts :: "FastMCP \<Rightarrow> (exn + pyval) \<times> core_call list" where
  "srv_list_prompts mcp =
     (bind_exn (list_prompts mcp) (\<lambda>prompts_list.
      bind_exn (project_prompts prompts_list) (\<lambda>prompts.
        Inr (PDict [(''prompts'', PList prompts)]))),
      [ListPrompts])"

text \<open>
  The conversion shared by \<^verbatim>\<open>_call_tool\<close> and \<^verbatim>\<open>_get_prompt\<close>: \<^verbatim>\<open>model_dump()\<close> when
  the result has it, else \<^verbatim>\<open>dict()\<close> when it has that, else the result itself.
\<close>

definition dump_model :: "pyval \<Rightarrow> pyval" where
  "dump_model r =
     (if hasattr r ''model_dump'' then attr_value r ''model_dump''
      else if hasattr r ''dict'' then attr_value r ''dict''
      else r)"

text \<open>\<^verbatim>\<open>_call_tool\<close>: any failure of the core is raised again as a \<^verbatim>\<open>ValueError\<close>.\<close>

definition srv_call_tool :: "FastMCP \<Rightarrow> pyval \<Rightarrow> pyval \<Rightarrow> (exn + pyval) \<times> core_call list" where
  "srv_call_tool mcp tool_name ps =
     (case call_tool mcp tool_name ps of
        Inr r \<Rightarrow> Inr (dump_model r)
      | Inl e \<Rightarrow> Inl (ValueError (''Error calling tool '' @ fmt mcp tool_name @ '': '' @ str_exn e)),
      [CallTool tool_name ps])"

text \<open>\<^verbatim>\<open>_read_resource\<close>.\<close>

definition srv_read_resource :: "FastMCP \<Rightarrow> string \<Rightarrow> (exn + pyval) \<times> core_call list" where
  "srv_read_resource mcp resource_uri =
     (case bind_exn (read_resource mcp resource_uri) (\<lambda>r.
           bind_exn (getattr r ''mimeType'') (\<lambda>m.
           bind_exn (getattr r ''text'') (\<lambda>t.
             Inr (PDict [(''contents'',
                    PList [PDict [(''uri'', PStr resource_uri),
                                  (''mimeType'', py_or m (PStr ''text/plain'')),
                                  (''text'', py_or t (PStr []))]])])))) of
        Inr v \<Rightarrow> Inr v
      | Inl e \<Rightarrow> Inl (ValueError (''Error reading resource '' @ resource_uri @ '': '' @ str_exn e)),
      [ReadResource resource_uri])"

text \<open>\<^verbatim>\<open>_get_prompt\<close>.\<close>

definition srv_get_prompt :: "FastMCP \<Rightarrow> string \<Rightarrow> pyval \<Rightarrow> (exn + pyval) \<times> core_call list" where
  "srv_get_prompt mcp prompt_name ps =
     (case get_prompt mcp prompt_name ps of
        Inr r \<Rightarrow> Inr (dump_model r)
      | Inl e \<Rightarrow> Inl (ValueError (''Error getting prompt '' @ prompt_name @ '': '' @ str_exn e)),
      [GetPrompt prompt_name ps])"

section \<open>The unary endpoint\<close>

text \<open>The body of the \<^verbatim>\<open>try\<close> block of \<^verbatim>\<open>mcp_call\<close>, up to the value of \<^verbatim>\<open>result\<close>.\<close>

definition mcp_call_try :: "FastMCP \<Rightarrow> MCPRequest \<Rightarrow> (exn + pyval) \<times> core_call list" where
  "mcp_call_try mcp request =
     (if method request = ''tools/list'' then srv_list_tools mcp
      else if method request = ''resources/list'' then srv_list_resources mcp
      else if method request = ''prompts/list'' then srv_list_prompts mcp
      else if method request = ''tools/call'' then
        (let ps = params_or_empty (params request);
             tool_name = dict_get ps ''name''
         in if \<not> truthy tool_name
            then (Inl (HTTPException 400 ''Missing 'name' parameter in tools/call''), [])
            else srv_call_tool mcp tool_name (dict_get_default ps ''arguments'' (PDict [])))
      else if startswith (method request) ''resources/read/'' then
        srv_read_resource mcp (py_replace (method request) ''resources/read/'' [])
      else if startswith (method request) ''prompts/get/'' then
        srv_get_prompt mcp (py_replace (method request) ''prompts/get/'' [])
                           (PDict (params_or_empty (params request)))
      else (Inl (HTTPException 404 (''Method not found: '' @ method request)), []))"

text \<open>
  \<^verbatim>\<open>mcp_call\<close>: the \<^verbatim>\<open>try\<close> block returns \<^verbatim>\<open>MCPResponse(result=result)\<close>, and the
  \<^verbatim>\<open>except Exception\<close> clause returns the error envelope. \<open>Inl\<close> would be an exception
  leaving the handler.
\<close>

definition mcp_call :: "FastMCP \<Rightarrow> MCPRequest \<Rightarrow> (exn + MCPResponse) \<times> core_call list" where
  "mcp_call mcp request =
     (case mcp_call_try mcp request of
        (Inr r, calls) \<Rightarrow> (Inr \<lparr>result = r, error = None\<rparr>, calls)
      | (Inl e, calls) \<Rightarrow>
          (Inr \<lparr>result = PNone,
                error = Some [(''code'', PInt (- 32603)), (''message'', PStr (str_exn e))]\<rparr>,
           calls))"

text \<open>
  The HTTP status the framework sends. A model the handler returns is encoded after the
  handler has returned: a JSON-shaped value always encodes, a value holding an object only
  where the framework's encoder, the parameter \<open>encodes\<close>, accepts it, and a model that
  does not encode is answered with 500. An \<^verbatim>\<open>HTTPException\<close> that leaves the handler is
  answered with its own status, any other exception with 500.
\<close>

fun http_status :: "(pyval \<Rightarrow> bool) \<Rightarrow> exn + MCPResponse \<Rightarrow> nat" where
  "http_status encodes (Inr response) =
     (if first_unserializable (result response) = None \<or> encodes (result response)
      then 200 else 500)"
| "http_status encodes (Inl (HTTPException status detail)) = status"
| "http_status encodes (Inl e) = 500"

section \<open>The streaming endpoint\<close>

text \<open>\<^verbatim>\<open>_handle_method\<close>.\<close>

definition srv_handle_method ::
  "FastMCP \<Rightarrow> string \<Rightarrow> (string \<times> pyval) list option \<Rightarrow> (exn + pyval) \<times> core_call list" where
  "srv_handle_method mcp m ps =
     (if m = ''tools/list'' then srv_list_tools mcp
      else if m = ''resources/list'' then srv_list_resources mcp
      else if m = ''prompts/list'' then srv_list_prompts mcp
      else if startswith m ''tools/call/'' then
        srv_call_tool mcp (PStr (py_replace m ''tools/call/'' [])) (PDict (params_or_empty ps))
      else if startswith m ''resources/read/'' then
        srv_read_resource mcp (py_replace m ''resources/read/'' [])
      else if startswith m ''prompts/get/'' then
        srv_get_prompt mcp (py_replace m ''prompts/get/'' []) (PDict (params_or_empty ps))
      else (Inl (ValueError (''Unknown method: '' @ m)), []))"

text \<open>
  The conversion \<^verbatim>\<open>generate\<close> applies to a tool result before it is encoded with
  \<^verbatim>\<open>json.dumps(result, default=str)\<close>, which does not raise on these values.
\<close>

definition convert_item :: "pyval \<Rightarrow> pyval" where
  "convert_item item =
     (if hasattr item ''__dict__'' then attr_value item ''__dict__''
      else if hasattr item ''model_dump'' then attr_value item ''model_dump''
      else item)"

definition to_serializable :: "pyval \<Rightarrow> pyval" where
  "to_serializable r =
     (if hasattr r ''__dict__'' then attr_value r ''__dict__''
      else (case r of
              PList xs \<Rightarrow> (if length xs > 0 then PList (map convert_item xs) else r)
            | _ \<Rightarrow> r))"

definition connected_event :: "string \<Rightarrow> sse_event" where
  "connected_event sid = \<lparr>event = ''connected'', data = PDict [(''session_id'', PStr sid)]\<rparr>"

definition result_event :: "pyval \<Rightarrow> sse_event" where
  "result_event v = \<lparr>event = ''result'', data = v\<rparr>"

definition done_event :: sse_event where
  "done_event = \<lparr>event = ''done'', data = PDict [(''status'', PStr ''completed'')]\<rparr>"

text \<open>
  The \<^verbatim>\<open>try\<close> block of \<^verbatim>\<open>generate\<close>: the events yielded so far, and the exception that
  ended the block if one did. \<open>sid\<close> is the fresh session identifier.
\<close>

definition generate_try ::
  "FastMCP \<Rightarrow> string \<Rightarrow> MCPRequest \<Rightarrow> (sse_event list \<times> exn option) \<times> core_call list" where
  "generate_try mcp sid request =
     (if method request = ''tools/call'' then
        (let ps = params_or_empty (params request);
             tool_name = dict_get ps ''name''
         in if \<not> truthy tool_name
            then (([connected_event sid,
                    \<lparr>event = ''error'',
                     data = PDict [(''error'', PStr ''Missing name parameter in tools/call'')]\<rparr>],
                   None), [])
            else (case srv_call_tool mcp tool_name (dict_get_default ps ''arguments'' (PDict [])) of
                    (Inl e, calls) \<Rightarrow> (([connected_event sid], Some e), calls)
                  | (Inr r, calls) \<Rightarrow>
                      (([connected_event sid, result_event (to_serializable r), done_event],
                        None), calls)))
      else (case srv_handle_method mcp (method request) (params request) of
              (Inl e, calls) \<Rightarrow> (([connected_event sid], Some e), calls)
            | (Inr r, calls) \<Rightarrow>
                (case json_dumps r of
                   Inl e \<Rightarrow> (([connected_event sid], Some e), calls)
                 | Inr v \<Rightarrow> (([connected_event sid, result_event v, done_event], None), calls))))"

text \<open>\<^verbatim>\<open>generate\<close>: the \<^verbatim>\<open>except Exception\<close> clause yields one more event, \<^verbatim>\<open>error\<close>.\<close>

definition generate :: "FastMCP \<Rightarrow> string \<Rightarrow> MCPRequest \<Rightarrow> sse_event list \<times> core_call list" where
  "generate mcp sid request =
     (case generate_try mcp sid request of
        ((events, None), calls) \<Rightarrow> (events, calls)
      | ((events, Some e), calls) \<Rightarrow>
          (events @ [\<lparr>event = ''error'',
                      data = PDict [(''error'',
                               PDict [(''code'', PInt (- 32603)),
                                      (''message'', PStr (str_exn e))])]\<rparr>],
           calls))"

section \<open>An example core\<close>

text \<open>
  A small core used for concrete runs: one tool descriptor carrying only its name, a tool
  \<^verbatim>\<open>echo\<close> returning its arguments, a tool \<^verbatim>\<open>noop\<close> returning \<^verbatim>\<open>None\<close>, and one
  resource whose contents carry neither a MIME type nor a text.
\<close>

definition demo_core :: FastMCP where
  "demo_core =
     \<lparr>list_tools = Inr [PObj ''Tool'' [(''name'', PStr ''get_ticket''),
                                        (''description'', PNone),
                                        (''inputSchema'', PNone)]],
      list_resources = Inr [],
      list_prompts = Inr [],
      call_tool = (\<lambda>name arguments.
         if name = PStr ''echo'' then Inr arguments
         else if name = PStr ''noop'' then Inr PNone
         else Inl (CoreError ''Unknown tool'')),
      read_resource = (\<lambda>uri.
         if uri = ''zammad://ticket/1''
         then Inr (PObj ''Contents'' [(''mimeType'', PNone), (''text'', PNone)])
         else Inl (CoreError ''Resource not found'')),
      get_prompt = (\<lambda>name arguments. Inl (CoreError ''Unknown prompt'')),
      py_repr = (\<lambda>v. ''<value>'')\<rparr>"

text \<open>
  A second core: its catalogue and read operations raise, and its \<^verbatim>\<open>call_tool\<close> returns an
  object that is neither JSON-shaped nor a model with \<^verbatim>\<open>model_dump\<close> or \<^verbatim>\<open>dict\<close>.
\<close>

definition faulty_core :: FastMCP where
  "faulty_core =
     \<lparr>list_tools = Inl (CoreError ''core down''),
      list_resources = Inl (CoreError ''core down''),
      list_prompts = Inl (CoreError ''core down''),
      call_tool = (\<lambda>name arguments. Inr (PObj ''Ticket'' [(''id'', PInt 1)])),
      read_resource = (\<lambda>uri. Inl (CoreError ''core down'')),
      get_prompt = (\<lambda>name arguments. Inl (CoreError ''core down'')),
      py_repr = (\<lambda>v. ''<value>'')\<rparr>"

text \<open>A framework encoder that accepts no object.\<close>

definition strict_encoder :: "pyval \<Rightarrow> bool" where
  "strict_encoder v = False"

text \<open>The field names of each entry of a \<^verbatim>\<open>tools/list\<close> result.\<close>

fun field_names :: "pyval \<Rightarrow> string list" where
  "field_names (PDict kvs) = map fst kvs"
| "field_names v = []"

fun entry_fields :: "exn + pyval \<Rightarrow> string list list" where
  "entry_fields (Inr (PDict [(k, PList entries)])) = map field_names entries"
| "entry_fields r = []"

text \<open>
  The tool descriptor of the data model, read off a tool object of the core: its name, its
  description with default \<^verbatim>\<open>""\<close>, its input schema with default \<^verbatim>\<open>{}\<close>.
\<close>

definition tool_descriptor :: "pyval \<Rightarrow> pyval" where
  "tool_descriptor t = PDict [(''name'', attr_value t ''name''),
       (''description'', if truthy (attr_value t ''description'')
                         then attr_value t ''description'' else PStr []),
       (''inputSchema'', if truthy (attr_value t ''inputSchema'')
                         then attr_value t ''inputSchema'' else PDict [])]"

section \<open>Helper lemmas\<close>

lemma str_nat_400: "str_nat 400 = ''400''"
  by (simp add: str_nat.simps digit_char_def)

lemma str_nat_404: "str_nat 404 = ''404''"
  by (simp add: str_nat.simps digit_char_def)

lemma startswith_append: "startswith (p @ s) p"
  by (induction p) auto

lemma startswith_iff: "startswith s p \<longleftrightarrow> (\<exists>r. s = p @ r)"
  by (induction s p rule: startswith.induct) auto

lemma py_replace_prefix:
  assumes "p \<noteq> []"
  shows "py_replace (p @ s) p new = new @ py_replace s p new"
  using assms by (subst py_replace.simps) (simp add: startswith_append)

lemma py_replace_absent:
  assumes "p \<noteq> []" and "\<not> contains_str s p"
  shows "py_replace s p new = s"
  using assms
proof (induction s)
  case Nil
  then show ?case by (simp add: py_replace.simps)
next
  case (Cons c cs)
  then show ?case by (subst py_replace.simps) simp
qed

lemma unary_rejects_legacy:
  "mcp_call mcp \<lparr>method = ''tools/call/'' @ name, params = ps\<rparr> =
     (Inr \<lparr>result = PNone,
           error = Some [(''code'', PInt (- 32603)),
                         (''message'', PStr (''404: Method not found: tools/call/'' @ name))]\<rparr>,
      [])"
  by (simp add: mcp_call_def mcp_call_try_def str_nat_404)

lemma handle_method_legacy:
  assumes "\<not> contains_str name ''tools/call/''"
  shows "srv_handle_method mcp (''tools/call/'' @ name) ps =
           srv_call_tool mcp (PStr name) (PDict (params_or_empty ps))"
proof -
  have r: "py_replace (''tools/call/'' @ name) ''tools/call/'' [] = name"
    using py_replace_prefix [of "''tools/call/''" name "[]"] py_replace_absent [OF _ assms, of "[]"]
    by simp
  have s: "startswith (''tools/call/'' @ name) ''tools/call/''"
    by (rule startswith_append)
  show ?thesis
    unfolding srv_handle_method_def using r s by simp
qed

lemma generate_calls_other:
  assumes "method request \<noteq> ''tools/call''"
  shows "snd (generate mcp sid request) =
           snd (srv_handle_method mcp (method request) (params request))"
  using assms
  by (simp add: generate_def generate_try_def split: sum.splits option.splits prod.splits)

lemma mcp_call_calls: "snd (mcp_call mcp request) = snd (mcp_call_try mcp request)"
  by (cases "mcp_call_try mcp request") (auto simp: mcp_call_def split: sum.splits)

lemma snd_srv_list_tools: "snd (srv_list_tools mcp) = [ListTools]"
  by (simp add: srv_list_tools_def)

lemma snd_srv_list_resources: "snd (srv_list_resources mcp) = [ListResources]"
  by (simp add: srv_list_resources_def)

lemma snd_srv_list_prompts: "snd (srv_list_prompts mcp) = [ListPrompts]"
  by (simp add: srv_list_prompts_def)

lemma snd_srv_call_tool: "snd (srv_call_tool mcp n a) = [CallTool n a]"
  by (simp add: srv_call_tool_def)

lemma snd_srv_read_resource: "snd (srv_read_resource mcp u) = [ReadResource u]"
  by (simp add: srv_read_resource_def)

lemma snd_srv_get_prompt: "snd (srv_get_prompt mcp n a) = [GetPrompt n a]"
  by (simp add: srv_get_prompt_def)

lemmas snd_adapters = snd_srv_list_tools snd_srv_list_resources snd_srv_list_prompts
  snd_srv_call_tool snd_srv_read_resource snd_srv_get_prompt

lemma route_read:
  assumes "startswith (method request) ''resources/read/''"
  shows "snd (mcp_call_try mcp request) =
           [ReadResource (py_replace (method request) ''resources/read/'' [])]"
proof -
  from assms obtain r where "method request = ''resources/read/'' @ r"
    by (auto simp: startswith_iff)
  then show ?thesis
    using assms by (simp add: mcp_call_try_def snd_adapters)
qed

lemma route_prompt:
  assumes "startswith (method request) ''prompts/get/''"
  shows "snd (mcp_call_try mcp request) =
           [GetPrompt (py_replace (method request) ''prompts/get/'' [])
                      (PDict (params_or_empty (params request)))]"
proof -
  from assms obtain r where "method request = ''prompts/get/'' @ r"
    by (auto simp: startswith_iff)
  then show ?thesis
    using assms by (simp add: mcp_call_try_def snd_adapters)
qed

lemma route_unknown:
  assumes "method request \<noteq> ''tools/list''" and "method request \<noteq> ''resources/list''"
    and "method request \<noteq> ''prompts/list''" and "method request \<noteq> ''tools/call''"
    and "\<not> startswith (method request) ''resources/read/''"
    and "\<not> startswith (method request) ''prompts/get/''"
  shows "mcp_call mcp request =
           (Inr \<lparr>result = PNone,
                 error = Some [(''code'', PInt (- 32603)),
                               (''message'', PStr (''404: Method not found: '' @ method request))]\<rparr>,
            [])"
  using assms by (simp add: mcp_call_def mcp_call_try_def str_nat_404)

lemma mentions_not_found: "contains_str (''404: Method not found: '' @ m) ''not found''"
  by simp

lemma bind_exn_Inr_iff:
  "bind_exn r f = Inr v \<longleftrightarrow> (\<exists>x. r = Inr x \<and> f x = Inr v)"
  by (cases r) (auto simp: bind_exn_def)

lemma getattr_hasattr: "hasattr t a \<Longrightarrow> getattr t a = Inr (attr_value t a)"
  by (auto simp: hasattr_def getattr_def attr_value_def)

lemma project_tools_complete:
  assumes "\<forall>t\<in>set ts. hasattr t ''name'' \<and> hasattr t ''description'' \<and> hasattr t ''inputSchema''"
  shows "project_tools ts = Inr (map tool_descriptor ts)"
  using assms
  by (induction ts) (simp_all add: getattr_hasattr bind_exn_def py_or_def tool_descriptor_def)

lemma fst_mcp_call_Inl:
  assumes "fst (mcp_call_try mcp request) = Inl e"
  shows "fst (mcp_call mcp request) =
           Inr \<lparr>result = PNone,
                error = Some [(''code'', PInt (- 32603)), (''message'', PStr (str_exn e))]\<rparr>"
  using assms by (cases "mcp_call_try mcp request") (auto simp: mcp_call_def)

lemma fst_mcp_call_Inr:
  assumes "fst (mcp_call_try mcp request) = Inr v"
  shows "fst (mcp_call mcp request) = Inr \<lparr>result = v, error = None\<rparr>"
  using assms by (cases "mcp_call_try mcp request") (auto simp: mcp_call_def)

lemma try_list_tools_fails:
  assumes "method request = ''tools/list''" and "list_tools mcp = Inl e"
  shows "fst (mcp_call_try mcp request) = Inl e"
  using assms by (simp add: mcp_call_try_def srv_list_tools_def bind_exn_def)

lemma try_list_resources_fails:
  assumes "method request = ''resources/list''" and "list_resources mcp = Inl e"
  shows "fst (mcp_call_try mcp request) = Inl e"
  using assms by (simp add: mcp_call_try_def srv_list_resources_def bind_exn_def)

lemma try_list_prompts_fails:
  assumes "method request = ''prompts/list''" and "list_prompts mcp = Inl e"
  shows "fst (mcp_call_try mcp request) = Inl e"
  using assms by (simp add: mcp_call_try_def srv_list_prompts_def bind_exn_def)

lemma try_call_tool_fails:
  assumes "method request = ''tools/call''"
    and "truthy (dict_get (params_or_empty (params request)) ''name'')"
    and "call_tool mcp (dict_get (params_or_empty (params request)) ''name'')
           (dict_get_default (params_or_empty (params request)) ''arguments'' (PDict [])) = Inl e"
  shows "fst (mcp_call_try mcp request) =
           Inl (ValueError (''Error calling tool ''
                  @ fmt mcp (dict_get (params_or_empty (params request)) ''name'')
                  @ '': '' @ str_exn e))"
  using assms by (simp add: mcp_call_try_def srv_call_tool_def Let_def)

lemma try_call_tool_succeeds:
  assumes "method request = ''tools/call''"
    and "truthy (dict_get (params_or_empty (params request)) ''name'')"
    and "call_tool mcp (dict_get (params_or_empty (params request)) ''name'')
           (dict_get_default (params_or_empty (params request)) ''arguments'' (PDict [])) = Inr r"
  shows "fst (mcp_call_try mcp request) = Inr (dump_model r)"
  using assms by (simp add: mcp_call_try_def srv_call_tool_def Let_def)

lemma try_read_resource_fails:
  assumes "startswith (method request) ''resources/read/''"
    and "read_resource mcp (py_replace (method request) ''resources/read/'' []) = Inl e"
  shows "fst (mcp_call_try mcp request) =
           Inl (ValueError (''Error reading resource ''
                  @ py_replace (method request) ''resources/read/'' [] @ '': '' @ str_exn e))"
proof -
  from assms(1) obtain r where "method request = ''resources/read/'' @ r"
    by (auto simp: startswith_iff)
  then show ?thesis
    using assms by (simp add: mcp_call_try_def srv_read_resource_def bind_exn_def)
qed

lemma try_get_prompt_fails:
  assumes "startswith (method request) ''prompts/get/''"
    and "get_prompt mcp (py_replace (method request) ''prompts/get/'' [])
           (PDict (params_or_empty (params request))) = Inl e"
  shows "fst (mcp_call_try mcp request) =
           Inl (ValueError (''Error getting prompt ''
                  @ py_replace (method request) ''prompts/get/'' [] @ '': '' @ str_exn e))"
proof -
  from assms(1) obtain r where "method request = ''prompts/get/'' @ r"
    by (auto simp: startswith_iff)
  then show ?thesis
    using assms by (simp add: mcp_call_try_def srv_get_prompt_def)
qed

lemma fst_generate_tools_call:
  assumes "method request = ''tools/call''"
  shows "fst (generate mcp sid request) =
     (if \<not> truthy (dict_get (params_or_empty (params request)) ''name'')
      then [connected_event sid,
            \<lparr>event = ''error'',
             data = PDict [(''error'', PStr ''Missing name parameter in tools/call'')]\<rparr>]
      else (case call_tool mcp (dict_get (params_or_empty (params request)) ''name'')
                  (dict_get_default (params_or_empty (params request)) ''arguments'' (PDict [])) of
              Inr r \<Rightarrow> [connected_event sid, result_event (to_serializable (dump_model r)), done_event]
            | Inl e \<Rightarrow>
                [connected_event sid,
                 \<lparr>event = ''error'',
                  data = PDict [(''error'',
                    PDict [(''code'', PInt (- 32603)),
                           (''message'', PStr (''Error calling tool ''
                              @ fmt mcp (dict_get (params_or_empty (params request)) ''name'')
                              @ '': '' @ str_exn e))])]\<rparr>]))"
  using assms
  by (simp add: generate_def generate_try_def srv_call_tool_def Let_def split: sum.splits)

lemma fst_generate_other:
  assumes "method request \<noteq> ''tools/call''"
  shows "fst (generate mcp sid request) =
     (case fst (srv_handle_method mcp (method request) (params request)) of
        Inl e \<Rightarrow>
          [connected_event sid,
           \<lparr>event = ''error'',
            data = PDict [(''error'',
              PDict [(''code'', PInt (- 32603)), (''message'', PStr (str_exn e))])]\<rparr>]
      | Inr r \<Rightarrow>
          (case first_unserializable r of
             None \<Rightarrow> [connected_event sid, result_event r, done_event]
           | Some cls \<Rightarrow>
               [connected_event sid,
                \<lparr>event = ''error'',
                 data = PDict [(''error'',
                   PDict [(''code'', PInt (- 32603)),
                          (''message'', PStr (''Object of type '' @ cls
                              @ '' is not JSON serializable''))])]\<rparr>]))"
  using assms
  by (cases "srv_handle_method mcp (method request) (params request)")
     (auto simp: generate_def generate_try_def json_dumps_def split: sum.splits option.splits)

lemma handle_list_tools_fails:
  assumes "list_tools mcp = Inl e"
  shows "fst (srv_handle_method mcp ''tools/list'' ps) = Inl e"
  using assms by (simp add: srv_handle_method_def srv_list_tools_def bind_exn_def)

section \<open>The claims\<close>

text \<open>
  C1. The claim: a \<^verbatim>\<open>tools/call\<close> request on \<^verbatim>\<open>POST /mcp/call\<close> whose params lack
  \<^verbatim>\<open>name\<close> is answered with HTTP status 400. The handler does raise
  \<^verbatim>\<open>HTTPException(status_code=400)\<close>, but inside its own \<^verbatim>\<open>try\<close> block, whose
  \<^verbatim>\<open>except Exception\<close> clause catches it: for every core, the request with empty params
  is answered with a returned envelope, hence status 200, whose error has code -32603 and
  the rendered exception as its message.
\<close>

theorem C1_missing_name_is_caught:
  "mcp_call mcp \<lparr>method = ''tools/call'', params = Some []\<rparr> =
     (Inr \<lparr>result = PNone,
           error = Some [(''code'', PInt (- 32603)),
                         (''message'', PStr ''400: Missing 'name' parameter in tools/call'')]\<rparr>,
      [])
   \<and> http_status encodes (fst (mcp_call mcp \<lparr>method = ''tools/call'', params = Some []\<rparr>)) = 200"
  by (simp add: mcp_call_def mcp_call_try_def params_or_empty_def dict_get_def str_nat_400)

text \<open>
  C2. The claim: the legacy form \<^verbatim>\<open>tools/call/<name>\<close> is resolved to the call-tool
  capability on the unary endpoint and refused on the streaming endpoint. The code does the
  opposite. At \<^verbatim>\<open>tools/call/echo\<close> the unary endpoint answers "Method not found" without
  calling the core, and the stream calls the tool \<^verbatim>\<open>echo\<close> and ends with \<^verbatim>\<open>done\<close>.
\<close>

theorem C2_counterexample:
  "mcp_call demo_core \<lparr>method = ''tools/call/echo'', params = None\<rparr> =
     (Inr \<lparr>result = PNone,
           error = Some [(''code'', PInt (- 32603)),
                         (''message'', PStr ''404: Method not found: tools/call/echo'')]\<rparr>,
      [])
   \<and> generate demo_core ''s1'' \<lparr>method = ''tools/call/echo'', params = None\<rparr> =
     ([connected_event ''s1'', result_event (PDict []), done_event],
      [CallTool (PStr ''echo'') (PDict [])])"
  by (simp add: mcp_call_def mcp_call_try_def str_nat_404 generate_def generate_try_def
      srv_handle_method_def srv_call_tool_def demo_core_def py_replace.simps dump_model_def
      hasattr_def json_dumps_def params_or_empty_def)

text \<open>
  C2, amended. For every name that does not contain \<^verbatim>\<open>tools/call/\<close> again, the method
  \<^verbatim>\<open>tools/call/<name>\<close> is accepted only on the streaming endpoint: the unary endpoint
  answers with the "Method not found" envelope and calls nothing, while the method handler
  behind the stream resolves it to the call-tool capability with that name and the request's
  params as arguments, and the stream makes exactly that one call.
\<close>

theorem C2_legacy_only_on_stream:
  assumes "\<not> contains_str name ''tools/call/''"
  shows "mcp_call mcp \<lparr>method = ''tools/call/'' @ name, params = ps\<rparr> =
           (Inr \<lparr>result = PNone,
                 error = Some [(''code'', PInt (- 32603)),
                               (''message'', PStr (''404: Method not found: tools/call/'' @ name))]\<rparr>,
            [])
         \<and> srv_handle_method mcp (''tools/call/'' @ name) ps =
             srv_call_tool mcp (PStr name) (PDict (params_or_empty ps))
         \<and> snd (generate mcp sid \<lparr>method = ''tools/call/'' @ name, params = ps\<rparr>) =
             [CallTool (PStr name) (PDict (params_or_empty ps))]"
proof -
  have "method \<lparr>method = ''tools/call/'' @ name, params = ps\<rparr> \<noteq> ''tools/call''"
    by simp
  from generate_calls_other [OF this]
  have "snd (generate mcp sid \<lparr>method = ''tools/call/'' @ name, params = ps\<rparr>) =
          snd (srv_handle_method mcp (''tools/call/'' @ name) ps)"
    by simp
  also have "\<dots> = snd (srv_call_tool mcp (PStr name) (PDict (params_or_empty ps)))"
    by (simp only: handle_method_legacy [OF assms])
  also have "\<dots> = [CallTool (PStr name) (PDict (params_or_empty ps))]"
    by (simp add: srv_call_tool_def)
  finally have stream:
    "snd (generate mcp sid \<lparr>method = ''tools/call/'' @ name, params = ps\<rparr>) =
       [CallTool (PStr name) (PDict (params_or_empty ps))]" .
  show ?thesis
    using unary_rejects_legacy handle_method_legacy [OF assms] stream by simp
qed

theorem C2_legacy_only_on_stream_witness:
  "\<not> contains_str ''echo'' ''tools/call/''
   \<and> fst (mcp_call demo_core \<lparr>method = ''tools/call/echo'', params = None\<rparr>) =
       Inr \<lparr>result = PNone,
            error = Some [(''code'', PInt (- 32603)),
                          (''message'', PStr ''404: Method not found: tools/call/echo'')]\<rparr>
   \<and> snd (generate demo_core ''s1'' \<lparr>method = ''tools/call/echo'', params = None\<rparr>) =
       [CallTool (PStr ''echo'') (PDict [])]"
proof -
  have absent: "\<not> contains_str ''echo'' ''tools/call/''" by simp
  show ?thesis
    using absent C2_legacy_only_on_stream [OF absent, of demo_core None "''s1''"]
    by (simp add: params_or_empty_def)
qed

text \<open>
  C3. Every stream of \<^verbatim>\<open>POST /mcp/stream\<close> is either \<^verbatim>\<open>connected\<close>, one \<^verbatim>\<open>result\<close>,
  \<^verbatim>\<open>done\<close>, or \<^verbatim>\<open>connected\<close> followed by one \<^verbatim>\<open>error\<close>: one \<^verbatim>\<open>connected\<close> event
  first, one terminal event last, at most one \<^verbatim>\<open>result\<close> between them and nothing after
  the terminal event. Which of the two it is follows the outcome of the call. On the
  \<^verbatim>\<open>tools/call\<close> path a missing name ends the stream with the missing-name \<^verbatim>\<open>error\<close>, a
  tool call the core answers gives its converted result and \<^verbatim>\<open>done\<close>, and a tool call the
  core fails gives the \<^verbatim>\<open>error\<close> event carrying that failure. On every other method the
  method handler's value, when it encodes as JSON, is the \<^verbatim>\<open>result\<close> followed by
  \<^verbatim>\<open>done\<close>; a value that does not encode, and a failure of the handler or of the core
  behind it, end the stream with the \<^verbatim>\<open>error\<close> event carrying the failure.
\<close>

theorem C3_stream_lifecycle:
  "((\<exists>v. fst (generate mcp sid request) = [connected_event sid, result_event v, done_event]
        \<and> snd (fst (generate_try mcp sid request)) = None)
    \<or> (\<exists>d. fst (generate mcp sid request) = [connected_event sid, \<lparr>event = ''error'', data = d\<rparr>]))
   \<and> (method request = ''tools/call'' \<longrightarrow>
        \<not> truthy (dict_get (params_or_empty (params request)) ''name'') \<longrightarrow>
        fst (generate mcp sid request) =
          [connected_event sid,
           \<lparr>event = ''error'',
            data = PDict [(''error'', PStr ''Missing name parameter in tools/call'')]\<rparr>])
   \<and> (method request = ''tools/call'' \<longrightarrow>
        truthy (dict_get (params_or_empty (params request)) ''name'') \<longrightarrow>
        call_tool mcp (dict_get (params_or_empty (params request)) ''name'')
          (dict_get_default (params_or_empty (params request)) ''arguments'' (PDict [])) = Inr r \<longrightarrow>
        fst (generate mcp sid request) =
          [connected_event sid, result_event (to_serializable (dump_model r)), done_event])
   \<and> (method request = ''tools/call'' \<longrightarrow>
        truthy (dict_get (params_or_empty (params request)) ''name'') \<longrightarrow>
        call_tool mcp (dict_get (params_or_empty (params request)) ''name'')
          (dict_get_default (params_or_empty (params request)) ''arguments'' (PDict [])) = Inl e \<longrightarrow>
        fst (generate mcp sid request) =
          [connected_event sid,
           \<lparr>event = ''error'',
            data = PDict [(''error'',
              PDict [(''code'', PInt (- 32603)),
                     (''message'', PStr (''Error calling tool ''
                        @ fmt mcp (dict_get (params_or_empty (params request)) ''name'')
                        @ '': '' @ str_exn e))])]\<rparr>])
   \<and> (method request \<noteq> ''tools/call'' \<longrightarrow>
        fst (srv_handle_method mcp (method request) (params request)) = Inr r \<longrightarrow>
        first_unserializable r = None \<longrightarrow>
        fst (generate mcp sid request) = [connected_event sid, result_event r, done_event])
   \<and> (method request \<noteq> ''tools/call'' \<longrightarrow>
        fst (srv_handle_method mcp (method request) (params request)) = Inr r \<longrightarrow>
        first_unserializable r = Some cls \<longrightarrow>
        fst (generate mcp sid request) =
          [connected_event sid,
           \<lparr>event = ''error'',
            data = PDict [(''error'',
              PDict [(''code'', PInt (- 32603)),
                     (''message'', PStr (''Object of type '' @ cls
                        @ '' is not JSON serializable''))])]\<rparr>])
   \<and> (method request \<noteq> ''tools/call'' \<longrightarrow>
        fst (srv_handle_method mcp (method request) (params request)) = Inl e \<longrightarrow>
        fst (generate mcp sid request) =
          [connected_event sid,
           \<lparr>event = ''error'',
            data = PDict [(''error'',
              PDict [(''code'', PInt (- 32603)), (''message'', PStr (str_exn e))])]\<rparr>])
   \<and> (method request = ''tools/list'' \<longrightarrow> list_tools mcp = Inl e \<longrightarrow>
        fst (generate mcp sid request) =
          [connected_event sid,
           \<lparr>event = ''error'',
            data = PDict [(''error'',
              PDict [(''code'', PInt (- 32603)), (''message'', PStr (str_exn e))])]\<rparr>])"
proof -
  have shape:
    "(\<exists>v. fst (generate mcp sid request) = [connected_event sid, result_event v, done_event]
        \<and> snd (fst (generate_try mcp sid request)) = None)
     \<or> (\<exists>d. fst (generate mcp sid request) = [connected_event sid, \<lparr>event = ''error'', data = d\<rparr>])"
    by (auto simp: generate_def generate_try_def Let_def
        split: prod.splits sum.splits option.splits)
  have call: "method request = ''tools/call'' \<longrightarrow>
        \<not> truthy (dict_get (params_or_empty (params request)) ''name'') \<longrightarrow>
        fst (generate mcp sid request) =
          [connected_event sid,
           \<lparr>event = ''error'',
            data = PDict [(''error'', PStr ''Missing name parameter in tools/call'')]\<rparr>]"
    "method request = ''tools/call'' \<longrightarrow>
        truthy (dict_get (params_or_empty (params request)) ''name'') \<longrightarrow>
        call_tool mcp (dict_get (params_or_empty (params request)) ''name'')
          (dict_get_default (params_or_empty (params request)) ''arguments'' (PDict [])) = Inr r \<longrightarrow>
        fst (generate mcp sid request) =
          [connected_event sid, result_event (to_serializable (dump_model r)), done_event]"
    "method request = ''tools/call'' \<longrightarrow>
        truthy (dict_get (params_or_empty (params request)) ''name'') \<longrightarrow>
        call_tool mcp (dict_get (params_or_empty (params request)) ''name'')
          (dict_get_default (params_or_empty (params request)) ''arguments'' (PDict [])) = Inl e \<longrightarrow>
        fst (generate mcp sid request) =
          [connected_event sid,
           \<lparr>event = ''error'',
            data = PDict [(''error'',
              PDict [(''code'', PInt (- 32603)),
                     (''message'', PStr (''Error calling tool ''
                        @ fmt mcp (dict_get (params_or_empty (params request)) ''name'')
                        @ '': '' @ str_exn e))])]\<rparr>]"
    by (simp_all add: fst_generate_tools_call)
  have other: "method request \<noteq> ''tools/call'' \<longrightarrow>
        fst (srv_handle_method mcp (method request) (params request)) = Inr r \<longrightarrow>
        first_unserializable r = None \<longrightarrow>
        fst (generate mcp sid request) = [connected_event sid, result_event r, done_event]"
    "method request \<noteq> ''tools/call'' \<longrightarrow>
        fst (srv_handle_method mcp (method request) (params request)) = Inr r \<longrightarrow>
        first_unserializable r = Some cls \<longrightarrow>
        fst (generate mcp sid request) =
          [connected_event sid,
           \<lparr>event = ''error'',
            data = PDict [(''error'',
              PDict [(''code'', PInt (- 32603)),
                     (''message'', PStr (''Object of type '' @ cls
                        @ '' is not JSON serializable''))])]\<rparr>]"
    "method request \<noteq> ''tools/call'' \<longrightarrow>
        fst (srv_handle_method mcp (method request) (params request)) = Inl e \<longrightarrow>
        fst (generate mcp sid request) =
          [connected_event sid,
           \<lparr>event = ''error'',
            data = PDict [(''error'',
              PDict [(''code'', PInt (- 32603)), (''message'', PStr (str_exn e))])]\<rparr>]"
    by (simp_all add: fst_generate_other)
  have tools: "method request = ''tools/list'' \<longrightarrow> list_tools mcp = Inl e \<longrightarrow>
        fst (generate mcp sid request) =
          [connected_event sid,
           \<lparr>event = ''error'',
            data = PDict [(''error'',
              PDict [(''code'', PInt (- 32603)), (''message'', PStr (str_exn e))])]\<rparr>]"
  proof (intro impI)
    assume m: "method request = ''tools/list''" and l: "list_tools mcp = Inl e"
    from m have "method request \<noteq> ''tools/call''" by simp
    from fst_generate_other [OF this] handle_list_tools_fails [OF l] m
    show "fst (generate mcp sid request) =
          [connected_event sid,
           \<lparr>event = ''error'',
            data = PDict [(''error'',
              PDict [(''code'', PInt (- 32603)), (''message'', PStr (str_exn e))])]\<rparr>]"
      by simp
  qed
  show ?thesis
    using shape call other tools by blast
qed

theorem C3_stream_lifecycle_witness:
  "fst (generate demo_core ''s1''
          \<lparr>method = ''tools/call'', params = Some [(''name'', PStr ''echo'')]\<rparr>) =
     [connected_event ''s1'', result_event (PDict []), done_event]
   \<and> fst (generate demo_core ''s1''
          \<lparr>method = ''tools/call'', params = Some [(''name'', PStr ''missing'')]\<rparr>) =
     [connected_event ''s1'',
      \<lparr>event = ''error'',
       data = PDict [(''error'',
         PDict [(''code'', PInt (- 32603)),
                (''message'', PStr ''Error calling tool missing: Unknown tool'')])]\<rparr>]
   \<and> fst (generate demo_core ''s1'' \<lparr>method = ''tools/call'', params = None\<rparr>) =
     [connected_event ''s1'',
      \<lparr>event = ''error'',
       data = PDict [(''error'', PStr ''Missing name parameter in tools/call'')]\<rparr>]
   \<and> fst (generate demo_core ''s1'' \<lparr>method = ''tools/list'', params = None\<rparr>) =
     [connected_event ''s1'',
      result_event (PDict [(''tools'',
        PList [PDict [(''name'', PStr ''get_ticket''), (''description'', PStr []),
                      (''inputSchema'', PDict [])]])]),
      done_event]
   \<and> fst (generate faulty_core ''s1'' \<lparr>method = ''tools/call/raw'', params = None\<rparr>) =
     [connected_event ''s1'',
      \<lparr>event = ''error'',
       data = PDict [(''error'',
         PDict [(''code'', PInt (- 32603)),
                (''message'', PStr ''Object of type Ticket is not JSON serializable'')])]\<rparr>]
   \<and> fst (generate demo_core ''s1'' \<lparr>method = ''unknown/x'', params = None\<rparr>) =
     [connected_event ''s1'',
      \<lparr>event = ''error'',
       data = PDict [(''error'',
         PDict [(''code'', PInt (- 32603)),
                (''message'', PStr ''Unknown method: unknown/x'')])]\<rparr>]
   \<and> fst (generate faulty_core ''s1'' \<lparr>method = ''tools/list'', params = None\<rparr>) =
     [connected_event ''s1'',
      \<lparr>event = ''error'',
       data = PDict [(''error'',
         PDict [(''code'', PInt (- 32603)), (''message'', PStr ''core down'')])]\<rparr>]"
proof -
  have a: "fst (generate demo_core ''s1''
          \<lparr>method = ''tools/call'', params = Some [(''name'', PStr ''echo'')]\<rparr>) =
     [connected_event ''s1'', result_event (PDict []), done_event]"
    using C3_stream_lifecycle [where mcp = demo_core and sid = "''s1''" and r = "PDict []"
        and request = "\<lparr>method = ''tools/call'', params = Some [(''name'', PStr ''echo'')]\<rparr>"]
    by (simp add: params_or_empty_def dict_get_def dict_get_default_def demo_core_def
        dump_model_def to_serializable_def hasattr_def)
  have b: "fst (generate demo_core ''s1''
          \<lparr>method = ''tools/call'', params = Some [(''name'', PStr ''missing'')]\<rparr>) =
     [connected_event ''s1'',
      \<lparr>event = ''error'',
       data = PDict [(''error'',
         PDict [(''code'', PInt (- 32603)),
                (''message'', PStr ''Error calling tool missing: Unknown tool'')])]\<rparr>]"
    using C3_stream_lifecycle [where mcp = demo_core and sid = "''s1''" and e = "CoreError ''Unknown tool''"
        and request = "\<lparr>method = ''tools/call'', params = Some [(''name'', PStr ''missing'')]\<rparr>"]
    by (simp add: params_or_empty_def dict_get_def dict_get_default_def demo_core_def fmt_def)
  have c: "fst (generate demo_core ''s1'' \<lparr>method = ''tools/call'', params = None\<rparr>) =
     [connected_event ''s1'',
      \<lparr>event = ''error'',
       data = PDict [(''error'', PStr ''Missing name parameter in tools/call'')]\<rparr>]"
    using C3_stream_lifecycle [where mcp = demo_core and sid = "''s1''"
        and request = "\<lparr>method = ''tools/call'', params = None\<rparr>"]
    by (simp add: params_or_empty_def dict_get_def)
  have d: "fst (generate demo_core ''s1'' \<lparr>method = ''tools/list'', params = None\<rparr>) =
     [connected_event ''s1'',
      result_event (PDict [(''tools'',
        PList [PDict [(''name'', PStr ''get_ticket''), (''description'', PStr []),
                      (''inputSchema'', PDict [])]])]),
      done_event]"
    using C3_stream_lifecycle [where mcp = demo_core and sid = "''s1''"
        and request = "\<lparr>method = ''tools/list'', params = None\<rparr>"
        and r = "PDict [(''tools'',
           PList [PDict [(''name'', PStr ''get_ticket''), (''description'', PStr []),
                         (''inputSchema'', PDict [])]])]"]
    by (simp add: srv_handle_method_def srv_list_tools_def demo_core_def bind_exn_def
        getattr_def py_or_def)
  have e: "fst (generate faulty_core ''s1'' \<lparr>method = ''tools/call/raw'', params = None\<rparr>) =
     [connected_event ''s1'',
      \<lparr>event = ''error'',
       data = PDict [(''error'',
         PDict [(''code'', PInt (- 32603)),
                (''message'', PStr ''Object of type Ticket is not JSON serializable'')])]\<rparr>]"
    using C3_stream_lifecycle [where mcp = faulty_core and sid = "''s1''"
        and request = "\<lparr>method = ''tools/call/raw'', params = None\<rparr>"
        and r = "PObj ''Ticket'' [(''id'', PInt 1)]" and cls = "''Ticket''"]
    by (simp add: srv_handle_method_def srv_call_tool_def faulty_core_def dump_model_def
        hasattr_def)
  have f: "fst (generate demo_core ''s1'' \<lparr>method = ''unknown/x'', params = None\<rparr>) =
     [connected_event ''s1'',
      \<lparr>event = ''error'',
       data = PDict [(''error'',
         PDict [(''code'', PInt (- 32603)),
                (''message'', PStr ''Unknown method: unknown/x'')])]\<rparr>]"
    using C3_stream_lifecycle [where mcp = demo_core and sid = "''s1''"
        and request = "\<lparr>method = ''unknown/x'', params = None\<rparr>"
        and e = "ValueError ''Unknown method: unknown/x''"]
    by (simp add: srv_handle_method_def)
  have g: "fst (generate faulty_core ''s1'' \<lparr>method = ''tools/list'', params = None\<rparr>) =
     [connected_event ''s1'',
      \<lparr>event = ''error'',
       data = PDict [(''error'',
         PDict [(''code'', PInt (- 32603)), (''message'', PStr ''core down'')])]\<rparr>]"
    using C3_stream_lifecycle [where mcp = faulty_core and sid = "''s1''"
        and request = "\<lparr>method = ''tools/list'', params = None\<rparr>"
        and e = "CoreError ''core down''"]
    by (simp add: faulty_core_def)
  show ?thesis
    using a b c d e f g by simp
qed

text \<open>
  C4. No exception leaves the handler of the unary endpoint: for every core and every
  request it returns an envelope. Whatever the \<^verbatim>\<open>try\<close> block raises becomes the error
  \<^verbatim>\<open>{code: -32603, message: str(e)}\<close>, with a negative code, answered with HTTP 200. In
  particular a failure of each of the six capabilities of the core is caught: a failing
  catalogue call gives the core's own message, and a failing \<^verbatim>\<open>call_tool\<close>,
  \<^verbatim>\<open>read_resource\<close> or \<^verbatim>\<open>get_prompt\<close> gives the adapter's message around it. When the
  block raises nothing the envelope carries the result and no error; it is then answered
  with HTTP 200 where the framework can encode the result, and with 500 where it cannot.
\<close>

theorem C4_no_exception_escapes:
  "(\<exists>resp. fst (mcp_call mcp request) = Inr resp)
   \<and> (fst (mcp_call_try mcp request) = Inl e \<longrightarrow>
        (\<exists>code. code = - 32603 \<and> code < 0 \<and>
           fst (mcp_call mcp request) =
             Inr \<lparr>result = PNone,
                  error = Some [(''code'', PInt code), (''message'', PStr (str_exn e))]\<rparr>)
        \<and> http_status encodes (fst (mcp_call mcp request)) = 200)
   \<and> (fst (mcp_call_try mcp request) = Inr v \<longrightarrow>
        fst (mcp_call mcp request) = Inr \<lparr>result = v, error = None\<rparr>
        \<and> http_status encodes (fst (mcp_call mcp request)) =
            (if first_unserializable v = None \<or> encodes v then 200 else 500))
   \<and> (method request = ''tools/list'' \<longrightarrow> list_tools mcp = Inl e \<longrightarrow>
        fst (mcp_call mcp request) =
          Inr \<lparr>result = PNone,
               error = Some [(''code'', PInt (- 32603)), (''message'', PStr (str_exn e))]\<rparr>)
   \<and> (method request = ''resources/list'' \<longrightarrow> list_resources mcp = Inl e \<longrightarrow>
        fst (mcp_call mcp request) =
          Inr \<lparr>result = PNone,
               error = Some [(''code'', PInt (- 32603)), (''message'', PStr (str_exn e))]\<rparr>)
   \<and> (method request = ''prompts/list'' \<longrightarrow> list_prompts mcp = Inl e \<longrightarrow>
        fst (mcp_call mcp request) =
          Inr \<lparr>result = PNone,
               error = Some [(''code'', PInt (- 32603)), (''message'', PStr (str_exn e))]\<rparr>)
   \<and> (method request = ''tools/call'' \<longrightarrow>
        truthy (dict_get (params_or_empty (params request)) ''name'') \<longrightarrow>
        call_tool mcp (dict_get (params_or_empty (params request)) ''name'')
          (dict_get_default (params_or_empty (params request)) ''arguments'' (PDict [])) = Inl e \<longrightarrow>
        fst (mcp_call mcp request) =
          Inr \<lparr>result = PNone,
               error = Some [(''code'', PInt (- 32603)),
                 (''message'', PStr (''Error calling tool ''
                    @ fmt mcp (dict_get (params_or_empty (params request)) ''name'')
                    @ '': '' @ str_exn e))]\<rparr>)
   \<and> (startswith (method request) ''resources/read/'' \<longrightarrow>
        read_resource mcp (py_replace (method request) ''resources/read/'' []) = Inl e \<longrightarrow>
        fst (mcp_call mcp request) =
          Inr \<lparr>result = PNone,
               error = Some [(''code'', PInt (- 32603)),
                 (''message'', PStr (''Error reading resource ''
                    @ py_replace (method request) ''resources/read/'' []
                    @ '': '' @ str_exn e))]\<rparr>)
   \<and> (startswith (method request) ''prompts/get/'' \<longrightarrow>
        get_prompt mcp (py_replace (method request) ''prompts/get/'' [])
          (PDict (params_or_empty (params request))) = Inl e \<longrightarrow>
        fst (mcp_call mcp request) =
          Inr \<lparr>result = PNone,
               error = Some [(''code'', PInt (- 32603)),
                 (''message'', PStr (''Error getting prompt ''
                    @ py_replace (method request) ''prompts/get/'' []
                    @ '': '' @ str_exn e))]\<rparr>)"
proof -
  have returns: "\<exists>resp. fst (mcp_call mcp request) = Inr resp"
    by (cases "mcp_call_try mcp request") (auto simp: mcp_call_def split: sum.splits)
  have raised: "fst (mcp_call_try mcp request) = Inl e \<longrightarrow>
        (\<exists>code. code = - 32603 \<and> code < 0 \<and>
           fst (mcp_call mcp request) =
             Inr \<lparr>result = PNone,
                  error = Some [(''code'', PInt code), (''message'', PStr (str_exn e))]\<rparr>)
        \<and> http_status encodes (fst (mcp_call mcp request)) = 200"
    by (auto simp: fst_mcp_call_Inl)
  have returned: "fst (mcp_call_try mcp request) = Inr v \<longrightarrow>
        fst (mcp_call mcp request) = Inr \<lparr>result = v, error = None\<rparr>
        \<and> http_status encodes (fst (mcp_call mcp request)) =
            (if first_unserializable v = None \<or> encodes v then 200 else 500)"
    by (auto simp: fst_mcp_call_Inr)
  have lists: "method request = ''tools/list'' \<longrightarrow> list_tools mcp = Inl e \<longrightarrow>
        fst (mcp_call mcp request) =
          Inr \<lparr>result = PNone,
               error = Some [(''code'', PInt (- 32603)), (''message'', PStr (str_exn e))]\<rparr>"
    "method request = ''resources/list'' \<longrightarrow> list_resources mcp = Inl e \<longrightarrow>
        fst (mcp_call mcp request) =
          Inr \<lparr>result = PNone,
               error = Some [(''code'', PInt (- 32603)), (''message'', PStr (str_exn e))]\<rparr>"
    "method request = ''prompts/list'' \<longrightarrow> list_prompts mcp = Inl e \<longrightarrow>
        fst (mcp_call mcp request) =
          Inr \<lparr>result = PNone,
               error = Some [(''code'', PInt (- 32603)), (''message'', PStr (str_exn e))]\<rparr>"
    using try_list_tools_fails [THEN fst_mcp_call_Inl]
      try_list_resources_fails [THEN fst_mcp_call_Inl]
      try_list_prompts_fails [THEN fst_mcp_call_Inl]
    by blast+
  have tool: "method request = ''tools/call'' \<longrightarrow>
        truthy (dict_get (params_or_empty (params request)) ''name'') \<longrightarrow>
        call_tool mcp (dict_get (params_or_empty (params request)) ''name'')
          (dict_get_default (params_or_empty (params request)) ''arguments'' (PDict [])) = Inl e \<longrightarrow>
        fst (mcp_call mcp request) =
          Inr \<lparr>result = PNone,
               error = Some [(''code'', PInt (- 32603)),
                 (''message'', PStr (''Error calling tool ''
                    @ fmt mcp (dict_get (params_or_empty (params request)) ''name'')
                    @ '': '' @ str_exn e))]\<rparr>"
    using try_call_tool_fails [THEN fst_mcp_call_Inl] by fastforce
  have resource: "startswith (method request) ''resources/read/'' \<longrightarrow>
        read_resource mcp (py_replace (method request) ''resources/read/'' []) = Inl e \<longrightarrow>
        fst (mcp_call mcp request) =
          Inr \<lparr>result = PNone,
               error = Some [(''code'', PInt (- 32603)),
                 (''message'', PStr (''Error reading resource ''
                    @ py_replace (method request) ''resources/read/'' []
                    @ '': '' @ str_exn e))]\<rparr>"
    using try_read_resource_fails [THEN fst_mcp_call_Inl] by fastforce
  have prompt: "startswith (method request) ''prompts/get/'' \<longrightarrow>
        get_prompt mcp (py_replace (method request) ''prompts/get/'' [])
          (PDict (params_or_empty (params request))) = Inl e \<longrightarrow>
        fst (mcp_call mcp request) =
          Inr \<lparr>result = PNone,
               error = Some [(''code'', PInt (- 32603)),
                 (''message'', PStr (''Error getting prompt ''
                    @ py_replace (method request) ''prompts/get/'' []
                    @ '': '' @ str_exn e))]\<rparr>"
    using try_get_prompt_fails [THEN fst_mcp_call_Inl] by fastforce
  show ?thesis
    using returns raised returned lists tool resource prompt by blast
qed

theorem C4_no_exception_escapes_witness:
  "fst (mcp_call faulty_core \<lparr>method = ''tools/list'', params = None\<rparr>) =
     Inr \<lparr>result = PNone,
          error = Some [(''code'', PInt (- 32603)), (''message'', PStr ''core down'')]\<rparr>
   \<and> fst (mcp_call faulty_core \<lparr>method = ''resources/list'', params = None\<rparr>) =
     Inr \<lparr>result = PNone,
          error = Some [(''code'', PInt (- 32603)), (''message'', PStr ''core down'')]\<rparr>
   \<and> fst (mcp_call faulty_core \<lparr>method = ''prompts/list'', params = None\<rparr>) =
     Inr \<lparr>result = PNone,
          error = Some [(''code'', PInt (- 32603)), (''message'', PStr ''core down'')]\<rparr>
   \<and> fst (mcp_call demo_core
          \<lparr>method = ''tools/call'', params = Some [(''name'', PStr ''missing'')]\<rparr>) =
     Inr \<lparr>result = PNone,
          error = Some [(''code'', PInt (- 32603)),
                        (''message'', PStr ''Error calling tool missing: Unknown tool'')]\<rparr>
   \<and> fst (mcp_call demo_core \<lparr>method = ''resources/read/zammad://none'', params = None\<rparr>) =
     Inr \<lparr>result = PNone,
          error = Some [(''code'', PInt (- 32603)),
                        (''message'',
                         PStr ''Error reading resource zammad://none: Resource not found'')]\<rparr>
   \<and> fst (mcp_call demo_core \<lparr>method = ''prompts/get/summary'', params = None\<rparr>) =
     Inr \<lparr>result = PNone,
          error = Some [(''code'', PInt (- 32603)),
                        (''message'', PStr ''Error getting prompt summary: Unknown prompt'')]\<rparr>
   \<and> http_status strict_encoder
         (fst (mcp_call demo_core \<lparr>method = ''prompts/get/summary'', params = None\<rparr>)) = 200
   \<and> fst (mcp_call faulty_core
          \<lparr>method = ''tools/call'', params = Some [(''name'', PStr ''raw'')]\<rparr>) =
     Inr \<lparr>result = PObj ''Ticket'' [(''id'', PInt 1)], error = None\<rparr>
   \<and> http_status strict_encoder
         (fst (mcp_call faulty_core
            \<lparr>method = ''tools/call'', params = Some [(''name'', PStr ''raw'')]\<rparr>)) = 500"
proof -
  have a: "fst (mcp_call faulty_core \<lparr>method = ''tools/list'', params = None\<rparr>) =
     Inr \<lparr>result = PNone,
          error = Some [(''code'', PInt (- 32603)), (''message'', PStr ''core down'')]\<rparr>"
    using C4_no_exception_escapes [where mcp = faulty_core and e = "CoreError ''core down''"
        and request = "\<lparr>method = ''tools/list'', params = None\<rparr>"]
    by (simp add: faulty_core_def)
  have b: "fst (mcp_call faulty_core \<lparr>method = ''resources/list'', params = None\<rparr>) =
     Inr \<lparr>result = PNone,
          error = Some [(''code'', PInt (- 32603)), (''message'', PStr ''core down'')]\<rparr>"
    using C4_no_exception_escapes [where mcp = faulty_core and e = "CoreError ''core down''"
        and request = "\<lparr>method = ''resources/list'', params = None\<rparr>"]
    by (simp add: faulty_core_def)
  have c: "fst (mcp_call faulty_core \<lparr>method = ''prompts/list'', params = None\<rparr>) =
     Inr \<lparr>result = PNone,
          error = Some [(''code'', PInt (- 32603)), (''message'', PStr ''core down'')]\<rparr>"
    using C4_no_exception_escapes [where mcp = faulty_core and e = "CoreError ''core down''"
        and request = "\<lparr>method = ''prompts/list'', params = None\<rparr>"]
    by (simp add: faulty_core_def)
  have d: "fst (mcp_call demo_core
          \<lparr>method = ''tools/call'', params = Some [(''name'', PStr ''missing'')]\<rparr>) =
     Inr \<lparr>result = PNone,
          error = Some [(''code'', PInt (- 32603)),
                        (''message'', PStr ''Error calling tool missing: Unknown tool'')]\<rparr>"
    using C4_no_exception_escapes [where mcp = demo_core and e = "CoreError ''Unknown tool''"
        and request = "\<lparr>method = ''tools/call'', params = Some [(''name'', PStr ''missing'')]\<rparr>"]
    by (simp add: params_or_empty_def dict_get_def dict_get_default_def demo_core_def fmt_def)
  have r: "py_replace ''resources/read/zammad://none'' ''resources/read/'' [] = ''zammad://none''"
    by (simp add: py_replace.simps)
  have e: "fst (mcp_call demo_core \<lparr>method = ''resources/read/zammad://none'', params = None\<rparr>) =
     Inr \<lparr>result = PNone,
          error = Some [(''code'', PInt (- 32603)),
                        (''message'',
                         PStr ''Error reading resource zammad://none: Resource not found'')]\<rparr>"
    using C4_no_exception_escapes [where mcp = demo_core and e = "CoreError ''Resource not found''"
        and request = "\<lparr>method = ''resources/read/zammad://none'', params = None\<rparr>"]
    by (simp add: r demo_core_def)
  have p: "py_replace ''prompts/get/summary'' ''prompts/get/'' [] = ''summary''"
    by (simp add: py_replace.simps)
  have f: "fst (mcp_call demo_core \<lparr>method = ''prompts/get/summary'', params = None\<rparr>) =
     Inr \<lparr>result = PNone,
          error = Some [(''code'', PInt (- 32603)),
                        (''message'', PStr ''Error getting prompt summary: Unknown prompt'')]\<rparr>"
    using C4_no_exception_escapes [where mcp = demo_core and e = "CoreError ''Unknown prompt''"
        and request = "\<lparr>method = ''prompts/get/summary'', params = None\<rparr>"]
    by (simp add: p demo_core_def)
  have g: "http_status strict_encoder
         (fst (mcp_call demo_core \<lparr>method = ''prompts/get/summary'', params = None\<rparr>)) = 200"
    by (simp add: f)
  have t: "fst (mcp_call_try faulty_core
          \<lparr>method = ''tools/call'', params = Some [(''name'', PStr ''raw'')]\<rparr>) =
          Inr (PObj ''Ticket'' [(''id'', PInt 1)])"
    by (simp add: mcp_call_try_def params_or_empty_def dict_get_def dict_get_default_def
        srv_call_tool_def faulty_core_def dump_model_def hasattr_def)
  have h: "fst (mcp_call faulty_core
          \<lparr>method = ''tools/call'', params = Some [(''name'', PStr ''raw'')]\<rparr>) =
     Inr \<lparr>result = PObj ''Ticket'' [(''id'', PInt 1)], error = None\<rparr>
   \<and> http_status strict_encoder
         (fst (mcp_call faulty_core
            \<lparr>method = ''tools/call'', params = Some [(''name'', PStr ''raw'')]\<rparr>)) = 500"
    using C4_no_exception_escapes [where mcp = faulty_core and v = "PObj ''Ticket'' [(''id'', PInt 1)]"
        and encodes = strict_encoder
        and request = "\<lparr>method = ''tools/call'', params = Some [(''name'', PStr ''raw'')]\<rparr>"]
    by (simp add: t strict_encoder_def)
  show ?thesis
    using a b c d e f g h by (simp add: strict_encoder_def)
qed

text \<open>
  C5. The claim: the string handed to the capability for \<^verbatim>\<open>resources/read/<uri>\<close> and
  \<^verbatim>\<open>prompts/get/<name>\<close> is the remainder of the method after the prefix, also when the
  remainder contains the prefix again. The code strips the prefix with \<^verbatim>\<open>str.replace\<close>,
  which removes every occurrence: for the remainder \<^verbatim>\<open>a/resources/read/b\<close> the core is
  asked for \<^verbatim>\<open>a/b\<close>, on both routers.
\<close>

theorem C5_replace_strips_every_occurrence:
  "snd (mcp_call mcp \<lparr>method = ''resources/read/a/resources/read/b'', params = None\<rparr>) =
     [ReadResource ''a/b'']
   \<and> snd (mcp_call mcp \<lparr>method = ''prompts/get/a/prompts/get/b'', params = None\<rparr>) =
     [GetPrompt ''a/b'' (PDict [])]
   \<and> snd (srv_handle_method mcp ''resources/read/a/resources/read/b'' None) =
     [ReadResource ''a/b'']"
  by (simp add: mcp_call_def mcp_call_try_def srv_handle_method_def srv_read_resource_def
      srv_get_prompt_def py_replace.simps params_or_empty_def split: sum.splits prod.splits)

text \<open>
  C6. The claim: every envelope of the unary endpoint has exactly one of result and error.
  With the tool \<^verbatim>\<open>noop\<close>, which succeeds and returns \<^verbatim>\<open>None\<close>, the envelope has neither.
\<close>

theorem C6_counterexample:
  "fst (mcp_call demo_core \<lparr>method = ''tools/call'', params = Some [(''name'', PStr ''noop'')]\<rparr>) =
     Inr \<lparr>result = PNone, error = None\<rparr>"
  by (simp add: mcp_call_def mcp_call_try_def params_or_empty_def dict_get_def
      dict_get_default_def srv_call_tool_def demo_core_def dump_model_def hasattr_def)

text \<open>
  C6, amended. No envelope of the unary endpoint has both a result and an error; the error
  is present exactly when the handler's \<^verbatim>\<open>try\<close> block raised; and neither is present
  exactly when the capability succeeded with the value \<^verbatim>\<open>None\<close>.
\<close>

theorem C6_never_both:
  "\<exists>resp. fst (mcp_call mcp request) = Inr resp
      \<and> \<not> (result resp \<noteq> PNone \<and> error resp \<noteq> None)
      \<and> ((result resp = PNone \<and> error resp = None) = (fst (mcp_call_try mcp request) = Inr PNone))
      \<and> ((error resp \<noteq> None) = (\<exists>e. fst (mcp_call_try mcp request) = Inl e))"
  by (cases "mcp_call_try mcp request")
     (auto simp: mcp_call_def split: sum.splits)

theorem C6_never_both_witness:
  "fst (mcp_call demo_core \<lparr>method = ''tools/list'', params = None\<rparr>) =
     Inr \<lparr>result = PDict [(''tools'',
              PList [PDict [(''name'', PStr ''get_ticket''), (''description'', PStr []),
                            (''inputSchema'', PDict [])]])],
          error = None\<rparr>"
  using C6_never_both [of demo_core "\<lparr>method = ''tools/list'', params = None\<rparr>"]
  by (auto simp: mcp_call_def mcp_call_try_def srv_list_tools_def demo_core_def bind_exn_def
      getattr_def py_or_def)

text \<open>
  C7. The router of the unary endpoint, over the recognized set \<^verbatim>\<open>tools/list\<close>,
  \<^verbatim>\<open>resources/list\<close>, \<^verbatim>\<open>prompts/list\<close>, \<^verbatim>\<open>tools/call\<close>,
  \<^verbatim>\<open>resources/read/<uri>\<close> and \<^verbatim>\<open>prompts/get/<name>\<close>: each recognized method makes
  exactly one call of the core, of its own capability (for \<^verbatim>\<open>tools/call\<close>, once the
  required name is there). Every other method string calls nothing and is answered with a
  returned envelope, hence HTTP 200, whose message is \<^verbatim>\<open>404: Method not found: <method>\<close>,
  which mentions "not found".
\<close>

theorem C7_router:
  "(method request = ''tools/list'' \<longrightarrow> snd (mcp_call mcp request) = [ListTools])
   \<and> (method request = ''resources/list'' \<longrightarrow> snd (mcp_call mcp request) = [ListResources])
   \<and> (method request = ''prompts/list'' \<longrightarrow> snd (mcp_call mcp request) = [ListPrompts])
   \<and> (method request = ''tools/call'' \<longrightarrow>
        truthy (dict_get (params_or_empty (params request)) ''name'') \<longrightarrow>
        snd (mcp_call mcp request) =
          [CallTool (dict_get (params_or_empty (params request)) ''name'')
                    (dict_get_default (params_or_empty (params request)) ''arguments'' (PDict []))])
   \<and> (startswith (method request) ''resources/read/'' \<longrightarrow>
        (\<exists>uri. snd (mcp_call mcp request) = [ReadResource uri]))
   \<and> (startswith (method request) ''prompts/get/'' \<longrightarrow>
        (\<exists>name. snd (mcp_call mcp request) =
                  [GetPrompt name (PDict (params_or_empty (params request)))]))
   \<and> (method request \<noteq> ''tools/list'' \<and> method request \<noteq> ''resources/list''
        \<and> method request \<noteq> ''prompts/list'' \<and> method request \<noteq> ''tools/call''
        \<and> \<not> startswith (method request) ''resources/read/''
        \<and> \<not> startswith (method request) ''prompts/get/'' \<longrightarrow>
        mcp_call mcp request =
          (Inr \<lparr>result = PNone,
                error = Some [(''code'', PInt (- 32603)),
                              (''message'', PStr (''404: Method not found: '' @ method request))]\<rparr>,
           [])
        \<and> http_status encodes (fst (mcp_call mcp request)) = 200
        \<and> contains_str (''404: Method not found: '' @ method request) ''not found'')"
proof -
  have lists: "method request = ''tools/list'' \<longrightarrow> snd (mcp_call mcp request) = [ListTools]"
    "method request = ''resources/list'' \<longrightarrow> snd (mcp_call mcp request) = [ListResources]"
    "method request = ''prompts/list'' \<longrightarrow> snd (mcp_call mcp request) = [ListPrompts]"
    by (simp_all add: mcp_call_calls mcp_call_try_def snd_adapters)
  have call: "method request = ''tools/call'' \<longrightarrow>
        truthy (dict_get (params_or_empty (params request)) ''name'') \<longrightarrow>
        snd (mcp_call mcp request) =
          [CallTool (dict_get (params_or_empty (params request)) ''name'')
                    (dict_get_default (params_or_empty (params request)) ''arguments'' (PDict []))]"
    by (simp add: mcp_call_calls mcp_call_try_def snd_adapters Let_def)
  have reads: "startswith (method request) ''resources/read/'' \<longrightarrow>
        (\<exists>uri. snd (mcp_call mcp request) = [ReadResource uri])"
    by (simp add: mcp_call_calls route_read)
  have prompts: "startswith (method request) ''prompts/get/'' \<longrightarrow>
        (\<exists>name. snd (mcp_call mcp request) =
                  [GetPrompt name (PDict (params_or_empty (params request)))])"
    by (simp add: mcp_call_calls route_prompt)
  have unknown: "method request \<noteq> ''tools/list'' \<and> method request \<noteq> ''resources/list''
        \<and> method request \<noteq> ''prompts/list'' \<and> method request \<noteq> ''tools/call''
        \<and> \<not> startswith (method request) ''resources/read/''
        \<and> \<not> startswith (method request) ''prompts/get/'' \<longrightarrow>
        mcp_call mcp request =
          (Inr \<lparr>result = PNone,
                error = Some [(''code'', PInt (- 32603)),
                              (''message'', PStr (''404: Method not found: '' @ method request))]\<rparr>,
           [])
        \<and> http_status encodes (fst (mcp_call mcp request)) = 200
        \<and> contains_str (''404: Method not found: '' @ method request) ''not found''"
    using mentions_not_found [of "method request"] by (auto simp: route_unknown)
  show ?thesis
    using lists call reads prompts unknown by blast
qed

theorem C7_router_witness:
  "snd (mcp_call demo_core \<lparr>method = ''tools/list'', params = None\<rparr>) = [ListTools]
   \<and> snd (mcp_call demo_core \<lparr>method = ''resources/list'', params = None\<rparr>) = [ListResources]
   \<and> snd (mcp_call demo_core \<lparr>method = ''prompts/list'', params = None\<rparr>) = [ListPrompts]
   \<and> snd (mcp_call demo_core \<lparr>method = ''tools/call'', params = Some [(''name'', PStr ''echo'')]\<rparr>)
        = [CallTool (PStr ''echo'') (PDict [])]
   \<and> snd (mcp_call demo_core \<lparr>method = ''resources/read/zammad://ticket/1'', params = None\<rparr>)
        = [ReadResource ''zammad://ticket/1'']
   \<and> snd (mcp_call demo_core \<lparr>method = ''prompts/get/summary'', params = None\<rparr>)
        = [GetPrompt ''summary'' (PDict [])]
   \<and> mcp_call demo_core \<lparr>method = ''unknown/x'', params = None\<rparr> =
        (Inr \<lparr>result = PNone,
              error = Some [(''code'', PInt (- 32603)),
                            (''message'', PStr ''404: Method not found: unknown/x'')]\<rparr>,
         [])
   \<and> http_status strict_encoder (fst (mcp_call demo_core \<lparr>method = ''unknown/x'', params = None\<rparr>)) = 200
   \<and> contains_str ''404: Method not found: unknown/x'' ''not found''"
proof -
  have a: "snd (mcp_call demo_core \<lparr>method = ''tools/list'', params = None\<rparr>) = [ListTools]"
    using C7_router [of "\<lparr>method = ''tools/list'', params = None\<rparr>" demo_core] by simp
  have b: "snd (mcp_call demo_core \<lparr>method = ''resources/list'', params = None\<rparr>) = [ListResources]"
    using C7_router [of "\<lparr>method = ''resources/list'', params = None\<rparr>" demo_core] by simp
  have c: "snd (mcp_call demo_core \<lparr>method = ''prompts/list'', params = None\<rparr>) = [ListPrompts]"
    using C7_router [of "\<lparr>method = ''prompts/list'', params = None\<rparr>" demo_core] by simp
  have d: "snd (mcp_call demo_core \<lparr>method = ''tools/call'', params = Some [(''name'', PStr ''echo'')]\<rparr>)
        = [CallTool (PStr ''echo'') (PDict [])]"
    using C7_router [of "\<lparr>method = ''tools/call'', params = Some [(''name'', PStr ''echo'')]\<rparr>" demo_core]
    by (simp add: params_or_empty_def dict_get_def dict_get_default_def)
  have e: "snd (mcp_call demo_core \<lparr>method = ''resources/read/zammad://ticket/1'', params = None\<rparr>)
        = [ReadResource ''zammad://ticket/1'']"
    by (simp add: mcp_call_calls mcp_call_try_def snd_adapters py_replace.simps)
  have f: "snd (mcp_call demo_core \<lparr>method = ''prompts/get/summary'', params = None\<rparr>)
        = [GetPrompt ''summary'' (PDict [])]"
    by (simp add: mcp_call_calls mcp_call_try_def snd_adapters py_replace.simps params_or_empty_def)
  have g: "mcp_call demo_core \<lparr>method = ''unknown/x'', params = None\<rparr> =
        (Inr \<lparr>result = PNone,
              error = Some [(''code'', PInt (- 32603)),
                            (''message'', PStr ''404: Method not found: unknown/x'')]\<rparr>,
         [])
   \<and> http_status strict_encoder (fst (mcp_call demo_core \<lparr>method = ''unknown/x'', params = None\<rparr>)) = 200
   \<and> contains_str ''404: Method not found: unknown/x'' ''not found''"
    using C7_router [of "\<lparr>method = ''unknown/x'', params = None\<rparr>" demo_core] by simp
  show ?thesis using a b c d e f g by simp
qed

text \<open>
  C8. Whenever \<^verbatim>\<open>_read_resource\<close> succeeds for a URI, the core returned contents with a
  \<^verbatim>\<open>mimeType\<close> and a \<^verbatim>\<open>text\<close>, and the value is a mapping whose \<^verbatim>\<open>contents\<close> has
  exactly one element: the requested URI, the MIME type or \<^verbatim>\<open>text/plain\<close> when the core
  gave none, and the text or the empty string when the core gave none.
\<close>

theorem C8_read_resource_contents:
  assumes "fst (srv_read_resource mcp uri) = Inr v"
  shows "\<exists>r m t. read_resource mcp uri = Inr r
           \<and> getattr r ''mimeType'' = Inr m \<and> getattr r ''text'' = Inr t
           \<and> v = PDict [(''contents'',
                   PList [PDict [(''uri'', PStr uri),
                                 (''mimeType'', if truthy m then m else PStr ''text/plain''),
                                 (''text'', if truthy t then t else PStr [])]])]"
proof -
  from assms obtain w where
    w: "bind_exn (read_resource mcp uri) (\<lambda>r.
           bind_exn (getattr r ''mimeType'') (\<lambda>m.
           bind_exn (getattr r ''text'') (\<lambda>t.
             Inr (PDict [(''contents'',
                    PList [PDict [(''uri'', PStr uri),
                                  (''mimeType'', py_or m (PStr ''text/plain'')),
                                  (''text'', py_or t (PStr []))]])])))) = Inr w"
    and "v = w"
    by (auto simp: srv_read_resource_def split: sum.splits)
  then obtain r m t where "read_resource mcp uri = Inr r"
    and "getattr r ''mimeType'' = Inr m" and "getattr r ''text'' = Inr t"
    and "v = PDict [(''contents'',
                   PList [PDict [(''uri'', PStr uri),
                                 (''mimeType'', py_or m (PStr ''text/plain'')),
                                 (''text'', py_or t (PStr []))]])]"
    by (auto simp: bind_exn_Inr_iff)
  then show ?thesis
    by (intro exI [of _ r] exI [of _ m] exI [of _ t]) (simp add: py_or_def)
qed

theorem C8_read_resource_contents_witness:
  "fst (srv_read_resource demo_core ''zammad://ticket/1'') =
     Inr (PDict [(''contents'',
            PList [PDict [(''uri'', PStr ''zammad://ticket/1''),
                          (''mimeType'', PStr ''text/plain''),
                          (''text'', PStr [])]])])
   \<and> read_resource demo_core ''zammad://ticket/1'' =
       Inr (PObj ''Contents'' [(''mimeType'', PNone), (''text'', PNone)])"
proof -
  have run: "fst (srv_read_resource demo_core ''zammad://ticket/1'') =
     Inr (PDict [(''contents'',
            PList [PDict [(''uri'', PStr ''zammad://ticket/1''),
                          (''mimeType'', PStr ''text/plain''),
                          (''text'', PStr [])]])])"
    by (simp add: srv_read_resource_def demo_core_def bind_exn_def getattr_def py_or_def)
  show ?thesis
    using C8_read_resource_contents [OF run] run by (simp add: demo_core_def)
qed

text \<open>
  C9. The claim: every entry of the \<^verbatim>\<open>tools/list\<close> result has four projected fields.
  A tool descriptor has three. For a core whose only tool supplies just its name, the entry
  has the fields \<^verbatim>\<open>name\<close>, \<^verbatim>\<open>description\<close> and \<^verbatim>\<open>inputSchema\<close> and no fourth.
\<close>

theorem C9_counterexample:
  "entry_fields (fst (srv_list_tools demo_core)) = [[''name'', ''description'', ''inputSchema'']]
   \<and> map length (entry_fields (fst (srv_list_tools demo_core))) \<noteq> [4]"
  by (simp add: srv_list_tools_def demo_core_def bind_exn_def getattr_def py_or_def)

text \<open>
  C9, amended. For every list of tool objects returned by the core, each carrying the
  attributes \<^verbatim>\<open>name\<close>, \<^verbatim>\<open>description\<close> and \<^verbatim>\<open>inputSchema\<close> (set or \<^verbatim>\<open>None\<close>), the
  \<^verbatim>\<open>tools/list\<close> result has one entry per tool, in order, and every entry has all three
  projected fields, the description defaulting to \<^verbatim>\<open>""\<close> and the input schema to
  \<^verbatim>\<open>{}\<close>.
\<close>

theorem C9_three_fields_with_defaults:
  assumes "list_tools mcp = Inr ts"
    and "\<forall>t\<in>set ts. hasattr t ''name'' \<and> hasattr t ''description'' \<and> hasattr t ''inputSchema''"
  shows "fst (srv_list_tools mcp) = Inr (PDict [(''tools'', PList (map tool_descriptor ts))])
         \<and> entry_fields (fst (srv_list_tools mcp)) =
             replicate (length ts) [''name'', ''description'', ''inputSchema'']"
proof -
  have run: "fst (srv_list_tools mcp) = Inr (PDict [(''tools'', PList (map tool_descriptor ts))])"
    using assms(1) project_tools_complete [OF assms(2)]
    by (simp add: srv_list_tools_def bind_exn_def)
  have "map field_names (map tool_descriptor ts) =
          replicate (length ts) [''name'', ''description'', ''inputSchema'']"
    by (induction ts) (simp_all add: tool_descriptor_def)
  with run show ?thesis by simp
qed

theorem C9_three_fields_with_defaults_witness:
  "list_tools demo_core = Inr [PObj ''Tool'' [(''name'', PStr ''get_ticket''),
                                               (''description'', PNone),
                                               (''inputSchema'', PNone)]]
   \<and> fst (srv_list_tools demo_core) =
       Inr (PDict [(''tools'',
              PList [PDict [(''name'', PStr ''get_ticket''),
                            (''description'', PStr []),
                            (''inputSchema'', PDict [])]])])"
proof -
  have l: "list_tools demo_core = Inr [PObj ''Tool'' [(''name'', PStr ''get_ticket''),
                                               (''description'', PNone),
                                               (''inputSchema'', PNone)]]"
    by (simp add: demo_core_def)
  have h: "\<forall>t\<in>set [PObj ''Tool'' [(''name'', PStr ''get_ticket''),
                                               (''description'', PNone),
                                               (''inputSchema'', PNone)]].
            hasattr t ''name'' \<and> hasattr t ''description'' \<and> hasattr t ''inputSchema''"
    by (simp add: hasattr_def)
  show ?thesis
    using l C9_three_fields_with_defaults [OF l h]
    by (simp add: tool_descriptor_def attr_value_def)
qed

text \<open>
  C10. On both endpoints a \<^verbatim>\<open>tools/call\<close> request whose params bind \<^verbatim>\<open>name\<close> to the
  empty string is answered exactly like one whose params have no \<^verbatim>\<open>name\<close>, and like one
  with no params at all: the unary endpoint returns the missing-name error envelope, the
  stream is \<^verbatim>\<open>connected\<close> followed by the missing-name \<^verbatim>\<open>error\<close> event, and the core is
  not called.
\<close>

theorem C10_empty_name_is_missing_name:
  assumes "map_of ps ''name'' = Some (PStr [])" and "map_of ps' ''name'' = None"
  shows "mcp_call mcp \<lparr>method = ''tools/call'', params = Some ps\<rparr> =
           mcp_call mcp \<lparr>method = ''tools/call'', params = Some ps'\<rparr>
         \<and> mcp_call mcp \<lparr>method = ''tools/call'', params = Some ps\<rparr> =
           mcp_call mcp \<lparr>method = ''tools/call'', params = None\<rparr>
         \<and> mcp_call mcp \<lparr>method = ''tools/call'', params = Some ps\<rparr> =
           (Inr \<lparr>result = PNone,
                 error = Some [(''code'', PInt (- 32603)),
                               (''message'', PStr ''400: Missing 'name' parameter in tools/call'')]\<rparr>,
            [])
         \<and> generate mcp sid \<lparr>method = ''tools/call'', params = Some ps\<rparr> =
           generate mcp sid \<lparr>method = ''tools/call'', params = Some ps'\<rparr>
         \<and> generate mcp sid \<lparr>method = ''tools/call'', params = Some ps\<rparr> =
           generate mcp sid \<lparr>method = ''tools/call'', params = None\<rparr>
         \<and> generate mcp sid \<lparr>method = ''tools/call'', params = Some ps\<rparr> =
           ([connected_event sid,
             \<lparr>event = ''error'',
              data = PDict [(''error'', PStr ''Missing name parameter in tools/call'')]\<rparr>],
            [])"
proof -
  have n: "dict_get (params_or_empty (Some ps)) ''name'' = PStr []"
    using assms(1) by (auto simp: params_or_empty_def dict_get_def)
  have n': "dict_get (params_or_empty (Some ps')) ''name'' = PNone"
    using assms(2) by (auto simp: params_or_empty_def dict_get_def)
  have n0: "dict_get (params_or_empty None) ''name'' = PNone"
    by (simp add: params_or_empty_def dict_get_def)
  show ?thesis
    by (simp add: mcp_call_def mcp_call_try_def generate_def generate_try_def n n' n0
        str_nat_400 Let_def)
qed

theorem C10_empty_name_is_missing_name_witness:
  "map_of [(''name'', PStr []), (''arguments'', PDict [])] ''name'' = Some (PStr [])
   \<and> map_of [(''arguments'', PDict [])] ''name'' = None
   \<and> snd (mcp_call demo_core \<lparr>method = ''tools/call'',
             params = Some [(''name'', PStr []), (''arguments'', PDict [])]\<rparr>) = []
   \<and> snd (generate demo_core ''s1'' \<lparr>method = ''tools/call'',
             params = Some [(''name'', PStr []), (''arguments'', PDict [])]\<rparr>) = []"
proof -
  have a: "map_of [(''name'', PStr []), (''arguments'', PDict [])] ''name'' = Some (PStr [])"
    by simp
  have b: "map_of [(''arguments'', PDict [])] ''name'' = None"
    by simp
  note run = C10_empty_name_is_missing_name [OF a b, of demo_core "''s1''"]
  have c: "snd (mcp_call demo_core \<lparr>method = ''tools/call'',
             params = Some [(''name'', PStr []), (''arguments'', PDict [])]\<rparr>) = []"
    by (simp add: run [THEN conjunct2, THEN conjunct2, THEN conjunct1])
  have d: "snd (generate demo_core ''s1'' \<lparr>method = ''tools/call'',
             params = Some [(''name'', PStr []), (''arguments'', PDict [])]\<rparr>) = []"
    by (simp add: run [THEN conjunct2, THEN conjunct2, THEN conjunct2, THEN conjunct2,
          THEN conjunct2])
  show ?thesis
    using a b c d by simp
qed

end
